theory Spec2Isabelle
  imports Complex_Main
begin

section \<open>Python values and errors\<close>

text \<open>
  The sources are Python. Floats are modelled by \<^typ>\<open>real\<close> (no rounding, no NaN),
  a numpy array of numbers by a list. Every \<^verbatim>\<open>raise\<close>, and every error the
  interpreter raises itself (an unbound name, a missing attribute, an index out of
  range), is a value of \<open>py_error\<close>; a function that can fail returns
  \<open>py_error + 'a\<close>.
\<close>

datatype py_error =
    NameError string
  | AttributeError string
  | IndexError
  | ValueError string
  | TypeError string

type_synonym vec = "real list"

section \<open>ObjectiveFunc (src/src/metaheuristic\_designer/ObjectiveFunc.py)\<close>

text \<open>
  The attributes \<^verbatim>\<open>__init__\<close> sets. \<open>factor\<close> is the Python integer 1 or -1.
\<close>

record ObjectiveFunc =
  name :: string
  counter :: int
  factor :: int
  vectorized :: bool
  recalculate :: bool
  mode :: string

text \<open>
  \<^verbatim>\<open>__init__(self, mode="max", name="some function", vectorized=False, recalculate=False)\<close>:
  the attributes are assigned, then an unknown mode raises \<^verbatim>\<open>ValueError\<close>, so the
  constructor returns no object; mode \<^verbatim>\<open>"min"\<close> sets factor to -1. (The message is
  written here without the quotation marks it has around min and max.)
\<close>

definition ObjectiveFunc_init :: "string \<Rightarrow> string \<Rightarrow> bool \<Rightarrow> bool \<Rightarrow> py_error + ObjectiveFunc" where
  "ObjectiveFunc_init mode_arg name_arg vectorized_arg recalculate_arg =
     (let self = \<lparr>name = name_arg, counter = 0, factor = 1, vectorized = vectorized_arg,
                   recalculate = recalculate_arg, mode = mode_arg\<rparr>
      in if mode_arg \<notin> set [''max'', ''min'']
         then Inl (ValueError ''Optimization objective (mode) must be min or max.'')
         else if mode self = ''min'' then Inr (self\<lparr>factor := - 1\<rparr>)
         else Inr self)"

text \<open>\<^verbatim>\<open>penalize(self, _)\<close> of the base class: \<^verbatim>\<open>return 0\<close>.\<close>

definition penalize :: "'s \<Rightarrow> real" where
  "penalize _ = 0"

text \<open>
  The population class this version of \<^verbatim>\<open>fitness\<close> reads is not among the sources; the
  attributes the method uses are taken as they are used: \<^verbatim>\<open>population.fitness\<close>
  (an array of floats), \<^verbatim>\<open>population.decode()\<close> (the solutions, one per
  individual), \<^verbatim>\<open>population.fitness_calculated\<close> (an array of 0/1 flags) and
  \<^verbatim>\<open>population.pop_size\<close>. The fields carry the prefix \<open>pop_\<close> where the plain
  name is taken by the individual's own attribute further down.
\<close>

record 's Population =
  pop_fitness :: "real list"
  decode :: "'s list"
  pop_fitness_calculated :: "int list"
  pop_size :: int

text \<open>
  numpy's boolean-mask indexing. \<^verbatim>\<open>a[mask]\<close> keeps the entries where the mask is
  true; \<^verbatim>\<open>a[mask] = b\<close> overwrites them, in order, with the entries of \<open>b\<close>.
  numpy raises \<^verbatim>\<open>IndexError\<close> when the mask is not as long as the array and
  \<^verbatim>\<open>ValueError\<close> when \<open>b\<close> has not one entry per true position.
\<close>

fun mask_select :: "bool list \<Rightarrow> 'a list \<Rightarrow> 'a list" where
  "mask_select (m # ms) (x # xs) = (if m then x # mask_select ms xs else mask_select ms xs)"
| "mask_select _ _ = []"

fun mask_assign :: "bool list \<Rightarrow> 'a list \<Rightarrow> 'a list \<Rightarrow> 'a list" where
  "mask_assign (True # ms) (x # xs) (v # vs) = v # mask_assign ms xs vs"
| "mask_assign (False # ms) (x # xs) vs = x # mask_assign ms xs vs"
| "mask_assign _ xs _ = xs"

definition masked_get :: "bool list \<Rightarrow> 'a list \<Rightarrow> py_error + 'a list" where
  "masked_get m xs = (if length m \<noteq> length xs then Inl IndexError else Inr (mask_select m xs))"

definition masked_set :: "bool list \<Rightarrow> 'a list \<Rightarrow> 'a list \<Rightarrow> py_error + 'a list" where
  "masked_set m xs vs =
     (if length m \<noteq> length xs then Inl IndexError
      else if length vs \<noteq> length (filter id m)
      then Inl (ValueError ''NumPy boolean array indexing assignment cannot assign'')
      else Inr (mask_assign m xs vs))"

text \<open>
  What one evaluation stores: \<^verbatim>\<open>value = self.objective(solution)\<close>, and under
  \<^verbatim>\<open>adjusted\<close>, \<^verbatim>\<open>value = self.factor * (value - self.penalize(solution))\<close>.
  \<open>objective\<close> is the abstract method; \<open>penal\<close> is the \<^verbatim>\<open>penalize\<close> in force
  (the base class's, or a subclass's override).
\<close>

definition evaluate :: "('s \<Rightarrow> real) \<Rightarrow> ('s \<Rightarrow> real) \<Rightarrow> ObjectiveFunc \<Rightarrow> bool \<Rightarrow> 's \<Rightarrow> real" where
  "evaluate objective penal self adjusted solution =
     (let v = objective solution
      in if adjusted then real_of_int (factor self) * (v - penal solution) else v)"

text \<open>
  The loop of the branch that is not vectorized:
  \<^verbatim>\<open>for idx, (solution, already_calculated) in enumerate(zip(solutions, population.fitness_calculated))\<close>.
  \<open>fit\<close> is the array \<^verbatim>\<open>fitness\<close> (which is \<^verbatim>\<open>population.fitness\<close> itself,
  written in place), \<open>evaluated\<close> the solutions handed to \<^verbatim>\<open>objective\<close> so far.
\<close>

fun fitness_loop ::
  "('s \<Rightarrow> real) \<Rightarrow> ('s \<Rightarrow> real) \<Rightarrow> ObjectiveFunc \<Rightarrow> bool \<Rightarrow> nat \<Rightarrow> ('s \<times> int) list \<Rightarrow>
   real list \<Rightarrow> 's list \<Rightarrow> py_error + (real list \<times> 's list)" where
  "fitness_loop objective penal self adjusted idx [] fit evaluated = Inr (fit, evaluated)"
| "fitness_loop objective penal self adjusted idx ((solution, already_calculated) # rest) fit evaluated =
     (if recalculate self \<or> \<not> (already_calculated \<noteq> 0)
      then (if idx < length fit
            then fitness_loop objective penal self adjusted (Suc idx) rest
                   (fit[idx := evaluate objective penal self adjusted solution])
                   (evaluated @ [solution])
            else Inl IndexError)
      else fitness_loop objective penal self adjusted (Suc idx) rest fit evaluated)"

text \<open>
  \<^verbatim>\<open>fitness(self, population, adjusted=True)\<close>. The result holds the returned
  array, the objective function and the population as the call leaves them, and the
  solutions that were handed to \<^verbatim>\<open>objective\<close>, in order (in the vectorized branch
  they are the rows of the one batch; a vectorized objective and penalty work row by
  row). In the vectorized branch without \<^verbatim>\<open>recalculate\<close> the local name
  \<^verbatim>\<open>fitness\<close> is rebound, so \<^verbatim>\<open>population.fitness\<close> keeps its old contents; the
  other paths write into the population's array.
\<close>

definition fitness ::
  "('s \<Rightarrow> real) \<Rightarrow> ('s \<Rightarrow> real) \<Rightarrow> ObjectiveFunc \<Rightarrow> 's Population \<Rightarrow> bool \<Rightarrow>
   py_error + (real list \<times> ObjectiveFunc \<times> 's Population \<times> 's list)" where
  "fitness objective penal self population adjusted =
     (let fit = pop_fitness population;
          solutions = decode population;
          not_calculated = map (\<lambda>c. c = 0) (pop_fitness_calculated population);
          finish = (\<lambda>fit_returned fit_stored evaluated.
            Inr (fit_returned,
                 self\<lparr>counter :=
                   (if recalculate self then counter self + pop_size population
                    else counter self
                         + (pop_size population - sum_list (pop_fitness_calculated population)))\<rparr>,
                 population\<lparr>pop_fitness := fit_stored,
                   pop_fitness_calculated :=
                     replicate (length (pop_fitness_calculated population)) 1\<rparr>,
                 evaluated))
      in if vectorized self then
           (case (if recalculate self then masked_get not_calculated solutions else Inr solutions) of
              Inl e \<Rightarrow> Inl e
            | Inr batch \<Rightarrow>
                (let fitness_new = map (evaluate objective penal self adjusted) batch
                 in if recalculate self then
                      (case masked_set not_calculated fit fitness_new of
                         Inl e \<Rightarrow> Inl e
                       | Inr fit' \<Rightarrow> finish fit' fit' batch)
                    else finish fitness_new fit batch))
         else
           (case fitness_loop objective penal self adjusted 0
                   (zip solutions (pop_fitness_calculated population)) fit [] of
              Inl e \<Rightarrow> Inl e
            | Inr (fit', evaluated) \<Rightarrow> finish fit' fit' evaluated))"

text \<open>
  Which solutions one call hands to \<^verbatim>\<open>objective\<close>, by the flag the solution has
  before the call. Without \<^verbatim>\<open>vectorized\<close> the loop tests
  \<^verbatim>\<open>self.recalculate or not already_calculated\<close>; the vectorized branch
  evaluates the rows with flag 0 when \<^verbatim>\<open>recalculate\<close> is set, and every row
  when it is not. Lemma \<open>fitness_returns\<close> below proves that these are the solutions
  the model of \<^verbatim>\<open>fitness\<close> evaluates.
\<close>

definition is_evaluated :: "ObjectiveFunc \<Rightarrow> int \<Rightarrow> bool" where
  "is_evaluated self already_calculated =
     (if vectorized self then (recalculate self \<longrightarrow> already_calculated = 0)
      else (recalculate self \<or> already_calculated = 0))"

text \<open>
  A population as its class keeps it: one fitness entry and one flag per solution,
  \<^verbatim>\<open>pop_size\<close> their number, every flag 0 or 1.
\<close>

definition wf_population :: "'s Population \<Rightarrow> bool" where
  "wf_population p =
     (length (pop_fitness p) = length (decode p) \<and>
      length (pop_fitness_calculated p) = length (decode p) \<and>
      pop_size p = int (length (decode p)) \<and>
      (\<forall>c \<in> set (pop_fitness_calculated p). c = 0 \<or> c = 1))"

text \<open>
  What the call adds to \<^verbatim>\<open>self.counter\<close>: \<^verbatim>\<open>int(population.pop_size)\<close> under
  \<^verbatim>\<open>recalculate\<close>, else
  \<^verbatim>\<open>int(population.pop_size - population.fitness_calculated.sum())\<close>.
\<close>

definition counter_step :: "ObjectiveFunc \<Rightarrow> 's Population \<Rightarrow> int" where
  "counter_step self p =
     (if recalculate self then pop_size p
      else pop_size p - sum_list (pop_fitness_calculated p))"

text \<open>Concrete objective functions and a concrete population of two solutions.\<close>

definition min_sphere :: ObjectiveFunc where
  "min_sphere = \<lparr>name = ''sphere'', counter = 0, factor = - 1, vectorized = False,
                  recalculate = False, mode = ''min''\<rparr>"

definition max_sphere :: ObjectiveFunc where
  "max_sphere = \<lparr>name = ''sphere'', counter = 0, factor = 1, vectorized = False,
                  recalculate = False, mode = ''max''\<rparr>"

definition vectorized_recalculate :: ObjectiveFunc where
  "vectorized_recalculate = \<lparr>name = ''sphere'', counter = 0, factor = 1, vectorized = True,
                  recalculate = True, mode = ''max''\<rparr>"

definition vectorized_plain :: ObjectiveFunc where
  "vectorized_plain = \<lparr>name = ''sphere'', counter = 0, factor = 1, vectorized = True,
                  recalculate = False, mode = ''max''\<rparr>"

definition two_solutions :: "vec Population" where
  "two_solutions = \<lparr>pop_fitness = [0, 7], decode = [[1, 2], [3, 4]],
                     pop_fitness_calculated = [0, 1], pop_size = 2\<rparr>"

section \<open>Individual (src/Individual.py)\<close>

text \<open>
  The attributes of an \<^verbatim>\<open>Indiv\<close>. \<^verbatim>\<open>_genotype\<close> and \<^verbatim>\<open>_fitness\<close> are the fields
  \<open>u_genotype\<close> and \<open>u_fitness\<close>. The attributes \<^verbatim>\<open>objfunc\<close> and \<^verbatim>\<open>operator\<close>
  are references to objects shared by the whole run; the functions below that use them
  take them as arguments.
\<close>

record Indiv =
  u_genotype :: vec
  speed :: vec
  u_fitness :: real
  fitness_calculated :: bool
  best :: vec
  is_dead :: bool

text \<open>
  Individuals are objects: two references can name the same one, and a write through
  one is seen through the other. Where that matters the individuals live in a store,
  a reference is a position in it and a population is a list of references. An array
  is kept by value inside its individual. An operator (\<^verbatim>\<open>op.evolve(indiv, population,
  objfunc, global_best)\<close>, or the operator object called) reads the store and
  returns a reference to its result, an individual it created or one that was in the
  store already, with the store as it leaves it; \<^verbatim>\<open>objfunc\<close> and \<^verbatim>\<open>global_best\<close>
  are passed through untouched and are part of the operator here.
\<close>

type_synonym heap = "Indiv list"

type_synonym operator = "heap \<Rightarrow> nat \<Rightarrow> nat list \<Rightarrow> nat \<times> heap"

text \<open>
  The objects a module-level name can be bound to, as far as the functions below tell
  them apart.
\<close>

datatype pyobj =
    PyModule string
  | PyClass string
  | PyFunction string
  | PyArray vec
  | PyFloat real
  | PyBool bool
  | PyOperators "operator list"
  | PyOther string

text \<open>
  A name that a function body reads and never assigns is looked up, when the statement
  runs, in the globals of the module that defines the function, then in the builtins;
  if neither binds it, \<^verbatim>\<open>NameError\<close> is raised. A module's globals are state: they
  are an argument of every function that reads such a name. The builtins bind none of
  the names looked up below (\<^verbatim>\<open>np\<close>, \<^verbatim>\<open>new_vector\<close>, \<^verbatim>\<open>op_list\<close>,
  \<^verbatim>\<open>result\<close>).
\<close>

type_synonym namespace = "(string \<times> pyobj) list"

definition load_global :: "namespace \<Rightarrow> string \<Rightarrow> py_error + pyobj" where
  "load_global g n = (case map_of g n of Some v \<Rightarrow> Inr v | None \<Rightarrow> Inl (NameError n))"

text \<open>The names every module has.\<close>

definition module_attributes :: namespace where
  "module_attributes =
     [(''__name__'', PyOther ''str''), (''__doc__'', PyOther ''None''),
      (''__package__'', PyOther ''str''), (''__loader__'', PyOther ''loader''),
      (''__spec__'', PyOther ''spec''), (''__file__'', PyOther ''str''),
      (''__cached__'', PyOther ''str''), (''__builtins__'', PyOther ''dict'')]"

text \<open>
  The globals of src/Individual.py once the module is loaded: its three imports
  (\<^verbatim>\<open>from __future__ import annotations\<close>, \<^verbatim>\<open>from typing import List\<close>,
  \<^verbatim>\<open>from copy import copy\<close>) and its class. numpy is not imported.
\<close>

definition Individual_globals :: namespace where
  "Individual_globals =
     [(''annotations'', PyOther ''__future__.annotations''), (''List'', PyOther ''typing.List''),
      (''copy'', PyFunction ''copy.copy''), (''Indiv'', PyClass ''Indiv'')] @ module_attributes"

text \<open>\<^verbatim>\<open>np.zeros_like(vector)\<close>.\<close>

definition zeros_like :: "vec \<Rightarrow> vec" where
  "zeros_like vector = replicate (length vector) 0"

text \<open>
  \<^verbatim>\<open>Indiv(objfunc, vector, speed=None, operator=None)\<close>. Without a speed the
  constructor evaluates \<^verbatim>\<open>np.zeros_like(vector)\<close>: the name \<^verbatim>\<open>np\<close> is looked up in
  the globals \<open>g\<close> of the module, and the attribute \<^verbatim>\<open>zeros_like\<close> on what it is
  bound to.
\<close>

definition Indiv_init :: "namespace \<Rightarrow> vec \<Rightarrow> vec option \<Rightarrow> py_error + Indiv" where
  "Indiv_init g vector speed_arg =
     (case (case speed_arg of
              Some s \<Rightarrow> Inr s
            | None \<Rightarrow>
                (case load_global g ''np'' of
                   Inl e \<Rightarrow> Inl e
                 | Inr (PyModule m) \<Rightarrow>
                     if m = ''numpy'' then Inr (zeros_like vector)
                     else Inl (AttributeError ''zeros_like'')
                 | Inr _ \<Rightarrow> Inl (AttributeError ''zeros_like''))) of
        Inl e \<Rightarrow> Inl e
      | Inr s \<Rightarrow>
          Inr \<lparr>u_genotype = vector, speed = s, u_fitness = 0, fitness_calculated = False,
               best = vector, is_dead = False\<rparr>)"

text \<open>
  \<^verbatim>\<open>__copy__\<close>: a new individual (the speed is given, so \<^verbatim>\<open>np\<close> is not read) with
  the cache and the stored best copied over.
\<close>

definition Indiv_copy :: "Indiv \<Rightarrow> Indiv" where
  "Indiv_copy self =
     \<lparr>u_genotype = u_genotype self, speed = speed self, u_fitness = u_fitness self,
      fitness_calculated = fitness_calculated self, best = best self, is_dead = False\<rparr>"

text \<open>The property \<^verbatim>\<open>genotype\<close>: its getter and its setter.\<close>

definition genotype_getter :: "Indiv \<Rightarrow> vec" where
  "genotype_getter self = u_genotype self"

definition genotype_setter :: "vec \<Rightarrow> Indiv \<Rightarrow> Indiv" where
  "genotype_setter vector self = self\<lparr>fitness_calculated := False, u_genotype := vector\<rparr>"

text \<open>
  The objective function object, called on an individual (\<^verbatim>\<open>self.objfunc(self)\<close>).
  Its class is not among the sources for this version, so the call is a parameter: a
  function of the individual it is given and of the calls made before (a counter, a
  random state). \<open>calls\<close> is the list of the individuals it has been called on.
\<close>

type_synonym objfunc = "Indiv list \<Rightarrow> Indiv \<Rightarrow> real"

text \<open>The property \<^verbatim>\<open>fitness\<close>: its setter, and its getter, which calls the setter.\<close>

definition fitness_setter :: "real \<Rightarrow> Indiv \<Rightarrow> Indiv" where
  "fitness_setter fit self = self\<lparr>u_fitness := fit, fitness_calculated := True\<rparr>"

definition fitness_getter :: "objfunc \<Rightarrow> Indiv \<Rightarrow> Indiv list \<Rightarrow> real \<times> Indiv \<times> Indiv list" where
  "fitness_getter objfunc self calls =
     (if \<not> fitness_calculated self
      then (let self' = fitness_setter (objfunc calls self) self
            in (u_fitness self', self', calls @ [self]))
      else (u_fitness self, self, calls))"

text \<open>
  \<^verbatim>\<open>store_best(self, past_indiv)\<close>, for two distinct individuals: both fitness
  properties are read, \<^verbatim>\<open>self\<close> first, and the result holds both individuals and the
  calls afterwards.
\<close>

definition store_best :: "objfunc \<Rightarrow> Indiv \<Rightarrow> Indiv \<Rightarrow> Indiv list \<Rightarrow> Indiv \<times> Indiv \<times> Indiv list" where
  "store_best objfunc self past_indiv calls =
     (let (fit_self, self1, calls1) = fitness_getter objfunc self calls;
          (fit_past, past1, calls2) = fitness_getter objfunc past_indiv calls1
      in if fit_self < fit_past
         then (self1\<lparr>best := genotype_getter past1\<rparr>, past1, calls2)
         else (self1, past1, calls2))"

text \<open>
  \<^verbatim>\<open>reproduce(self, population)\<close>, on the store. The operator's result is an
  individual, whose genotype is then assigned through the setter; the last line reads
  the name \<^verbatim>\<open>new_vector\<close>, which the function never assigns, so it is looked up in
  the module's globals. The new individual would be appended to the store. (A value of
  \<^verbatim>\<open>new_vector\<close> that is no array is outside this model; \<^verbatim>\<open>TypeError\<close> stands for
  it.)
\<close>

definition reproduce ::
  "namespace \<Rightarrow> operator \<Rightarrow> (vec \<Rightarrow> vec) \<Rightarrow> heap \<Rightarrow> nat \<Rightarrow> nat list \<Rightarrow> (py_error + nat) \<times> heap" where
  "reproduce g operator repair_solution h self population =
     (let (new_indiv, h1) = operator h self population;
          h2 = h1[new_indiv :=
                   genotype_setter (repair_solution (genotype_getter (h1 ! new_indiv)))
                     (h1 ! new_indiv)]
      in case load_global g ''new_vector'' of
           Inl e \<Rightarrow> (Inl e, h2)
         | Inr (PyArray new_vector) \<Rightarrow>
             (case Indiv_init g new_vector (Some (speed (h2 ! self))) of
                Inl e \<Rightarrow> (Inl e, h2)
              | Inr created \<Rightarrow> (Inr (length h2), h2 @ [created]))
         | Inr _ \<Rightarrow> (Inl (TypeError ''new_vector''), h2))"

text \<open>
  Concrete inputs. The objective \<open>score\<close> is the sum of the genotype. \<open>fresh\<close> is an
  individual as the constructor builds it around the vector [10] with a speed given;
  \<open>moved\<close> is \<open>fresh\<close> after \<^verbatim>\<open>fresh.genotype = [1]\<close>, so its stored best is still
  [10]; \<open>candidate\<close> holds [5]. \<open>far_out\<close> holds a genotype outside the bounds that
  \<open>clip\<close> (\<^verbatim>\<open>np.clip(vector, -100, 100)\<close>, the repair of the vector objective)
  enforces, and has its fitness cached.
\<close>

definition score :: objfunc where
  "score calls indiv = sum_list (u_genotype indiv)"

definition fresh :: Indiv where
  "fresh = \<lparr>u_genotype = [10], speed = [0], u_fitness = 0, fitness_calculated = False,
            best = [10], is_dead = False\<rparr>"

definition moved :: Indiv where
  "moved = genotype_setter [1] fresh"

definition candidate :: Indiv where
  "candidate = \<lparr>u_genotype = [5], speed = [0], u_fitness = 0, fitness_calculated = False,
                best = [5], is_dead = False\<rparr>"

definition clip :: "vec \<Rightarrow> vec" where
  "clip vector = map (\<lambda>x. min (max x (- 100)) 100) vector"

definition far_out :: Indiv where
  "far_out = \<lparr>u_genotype = [200], speed = [0], u_fitness = 200, fitness_calculated = True,
              best = [200], is_dead = False\<rparr>"

text \<open>An operator that hands back the individual it was given.\<close>

definition same_indiv :: operator where
  "same_indiv h indiv population = (indiv, h)"

section \<open>OperatorSplit (src/src/pyevolcomp/Operators/OperatorSplit.py)\<close>

text \<open>The attributes the constructor sets: the operators and the mask (an array of operator indices).\<close>

record OperatorSplit =
  op_list :: "operator list"
  mask :: "int list"

text \<open>
  The globals of the module once it is loaded: its imports and its class. Neither
  \<^verbatim>\<open>op_list\<close> nor \<^verbatim>\<open>result\<close> is among them.
\<close>

definition OperatorSplit_globals :: namespace where
  "OperatorSplit_globals =
     [(''random'', PyModule ''random''), (''np'', PyModule ''numpy''),
      (''copy'', PyFunction ''copy.copy''), (''List'', PyOther ''typing.List''),
      (''Union'', PyOther ''typing.Union''), (''ParamScheduler'', PyClass ''ParamScheduler''),
      (''Operator'', PyClass ''Operator''), (''OperatorSplit'', PyClass ''OperatorSplit'')]
     @ module_attributes"

text \<open>
  The body of the loop of \<^verbatim>\<open>evolve\<close>, over the pairs that \<^verbatim>\<open>enumerate\<close> yields:
  \<^verbatim>\<open>aux_indiv = op.evolve(indiv, population, objfunc, global_best)\<close>, then
  \<^verbatim>\<open>indiv.genotype[self.mask == idx] = aux_indiv.genotype[self.mask == idx]\<close>.
  The assignment writes into the array of the individual \<^verbatim>\<open>indiv\<close> refers to; it
  does not go through the setter of \<^verbatim>\<open>genotype\<close>, so the cache flag stays.
\<close>

fun evolve_loop ::
  "OperatorSplit \<Rightarrow> (nat \<times> operator) list \<Rightarrow> heap \<Rightarrow> nat \<Rightarrow> nat list \<Rightarrow> (py_error + unit) \<times> heap" where
  "evolve_loop self [] h indiv population = (Inr (), h)"
| "evolve_loop self ((idx, oper) # rest) h indiv population =
     (let (aux_indiv, h1) = oper h indiv population;
          selected = map (\<lambda>m. m = int idx) (mask self)
      in case masked_get selected (genotype_getter (h1 ! aux_indiv)) of
           Inl e \<Rightarrow> (Inl e, h1)
         | Inr picked \<Rightarrow>
             (case masked_set selected (genotype_getter (h1 ! indiv)) picked of
                Inl e \<Rightarrow> (Inl e, h1)
              | Inr written \<Rightarrow>
                  evolve_loop self rest (h1[indiv := (h1 ! indiv)\<lparr>u_genotype := written\<rparr>])
                    indiv population))"

text \<open>
  \<^verbatim>\<open>evolve(self, indiv, population, objfunc, global_best)\<close>. The loop iterates over
  the name \<^verbatim>\<open>op_list\<close> and the function returns the name \<^verbatim>\<open>result\<close>; the body
  assigns neither, so both are looked up in the module's globals \<open>g\<close>.
  (\<^verbatim>\<open>self.op_list\<close> is not read.) A value of \<^verbatim>\<open>op_list\<close> that is no list of
  operators cannot be iterated as one: \<^verbatim>\<open>TypeError\<close>.
\<close>

definition evolve ::
  "namespace \<Rightarrow> OperatorSplit \<Rightarrow> heap \<Rightarrow> nat \<Rightarrow> nat list \<Rightarrow> (py_error + pyobj) \<times> heap" where
  "evolve g self h indiv population =
     (case load_global g ''op_list'' of
        Inl e \<Rightarrow> (Inl e, h)
      | Inr (PyOperators ops) \<Rightarrow>
          (case evolve_loop self (enumerate 0 ops) h indiv population of
             (Inl e, h') \<Rightarrow> (Inl e, h')
           | (Inr _, h') \<Rightarrow>
               (case load_global g ''result'' of
                  Inl e \<Rightarrow> (Inl e, h')
                | Inr r \<Rightarrow> (Inr r, h')))
      | Inr _ \<Rightarrow> (Inl (TypeError ''op_list''), h))"

text \<open>
  Concrete inputs: two operators that leave the store's individuals alone and return
  a new individual (one adds 10 to every position of the genotype, the other reverses
  the genotype), the split of the two under the mask [0, 1, 0, 1], and a store whose
  one individual holds [1, 2, 3, 4] with its fitness cached.
\<close>

definition add_ten :: operator where
  "add_ten h indiv population =
     (length h, h @ [(h ! indiv)\<lparr>u_genotype := map (\<lambda>x. x + 10) (u_genotype (h ! indiv))\<rparr>])"

definition reversed :: operator where
  "reversed h indiv population =
     (length h, h @ [(h ! indiv)\<lparr>u_genotype := rev (u_genotype (h ! indiv))\<rparr>])"

definition split_example :: OperatorSplit where
  "split_example = \<lparr>op_list = [add_ten, reversed], mask = [0, 1, 0, 1]\<rparr>"

definition four_dim :: Indiv where
  "four_dim = \<lparr>u_genotype = [1, 2, 3, 4], speed = [0, 0, 0, 0], u_fitness = 10,
               fitness_calculated = True, best = [1, 2, 3, 4], is_dead = False\<rparr>"

section \<open>ES (src/Algorithms/ES.py)\<close>

text \<open>
  The attributes of the strategy that the methods below read. \<^verbatim>\<open>size\<close> is the field
  \<open>size_es\<close>; \<^verbatim>\<open>population\<close> is the field \<open>population_es\<close>, \<open>None\<close> when the
  constructor was given no population and \<^verbatim>\<open>initialize\<close> has not run. The population
  is a list of distinct individuals, kept by value.
\<close>

record ES =
  size_es :: int
  n_offspring :: int
  population_es :: "Indiv list option"

text \<open>
  \<^verbatim>\<open>__init__\<close>: \<^verbatim>\<open>self.size = params["popSize"] if "popSize" in params else 100\<close>,
  \<^verbatim>\<open>self.n_offspring = params["offspringSize"] if "offspringSize" in params else self.size\<close>.
\<close>

definition ES_init :: "(string \<rightharpoonup> int) \<Rightarrow> Indiv list option \<Rightarrow> ES" where
  "ES_init params population_arg =
     (let sz = (case params ''popSize'' of Some v \<Rightarrow> v | None \<Rightarrow> 100);
          n = (case params ''offspringSize'' of Some v \<Rightarrow> v | None \<Rightarrow> sz)
      in \<lparr>size_es = sz, n_offspring = n, population_es = population_arg\<rparr>)"

text \<open>
  Reading an attribute of an individual by name. The instance has the attributes the
  constructor assigns; the class adds the two properties and the methods. The property
  \<^verbatim>\<open>fitness\<close> is read through \<open>fitness_getter\<close>; for it, for the two shared objects
  and for the methods \<open>PyOther\<close> stands here. The class defines no
  \<^verbatim>\<open>__getattr__\<close>, so any other name raises \<^verbatim>\<open>AttributeError\<close>.
\<close>

definition Indiv_getattr :: "Indiv \<Rightarrow> string \<Rightarrow> py_error + pyobj" where
  "Indiv_getattr self n =
     (if n = ''_genotype'' \<or> n = ''genotype'' then Inr (PyArray (u_genotype self))
      else if n = ''speed'' then Inr (PyArray (speed self))
      else if n = ''_fitness'' then Inr (PyFloat (u_fitness self))
      else if n = ''fitness_calculated'' then Inr (PyBool (fitness_calculated self))
      else if n = ''best'' then Inr (PyArray (best self))
      else if n = ''is_dead'' then Inr (PyBool (is_dead self))
      else if n \<in> set [''objfunc'', ''operator'', ''fitness'', ''store_best'', ''reproduce'',
                        ''apply_speed'', ''__copy__'', ''__init__'']
      then Inr (PyOther n)
      else Inl (AttributeError n))"

text \<open>
  \<^verbatim>\<open>sorted(xs, reverse=True, key=f)\<close>: the key of every element is computed first,
  in order (\<open>fitness_keys\<close>: each read of \<^verbatim>\<open>c.fitness\<close> may call the objective
  function and caches); the sort is stable, and with \<^verbatim>\<open>reverse\<close> the list is
  reversed before and after, so that elements with equal keys keep their order.
\<close>

fun fitness_keys :: "objfunc \<Rightarrow> Indiv list \<Rightarrow> Indiv list \<Rightarrow> (real \<times> Indiv) list \<times> Indiv list" where
  "fitness_keys objfunc [] calls = ([], calls)"
| "fitness_keys objfunc (c # cs) calls =
     (let (k, c', calls1) = fitness_getter objfunc c calls;
          (rest, calls2) = fitness_keys objfunc cs calls1
      in ((k, c') # rest, calls2))"

definition sorted_reverse :: "('a \<Rightarrow> real) \<Rightarrow> 'a list \<Rightarrow> 'a list" where
  "sorted_reverse f xs = rev (sort_key f (rev xs))"

text \<open>
  \<^verbatim>\<open>best_solution\<close>, up to its return statement: the first element of the sorted
  population and its fitness, multiplied by -1 when \<^verbatim>\<open>self.objfunc.opt == "min"\<close>.
  (\<open>opt\<close> is that attribute of the objective function.) The individuals keep the
  fitness they cached on the way.
\<close>

definition best_choice ::
  "objfunc \<Rightarrow> string \<Rightarrow> ES \<Rightarrow> Indiv list \<Rightarrow> (py_error + (Indiv \<times> real)) \<times> ES \<times> Indiv list" where
  "best_choice objfunc opt self calls =
     (case population_es self of
        None \<Rightarrow> (Inl (AttributeError ''population''), self, calls)
      | Some pop \<Rightarrow>
          (let (keyed, calls1) = fitness_keys objfunc pop calls;
               self1 = self\<lparr>population_es := Some (map snd keyed)\<rparr>
           in case sorted_reverse fst keyed of
                [] \<Rightarrow> (Inl IndexError, self1, calls1)
              | (k, best_sol) # _ \<Rightarrow>
                  (let (best_fitness, best_sol', calls2) = fitness_getter objfunc best_sol calls1
                   in (Inr (best_sol',
                            if opt = ''min'' then best_fitness * (- 1) else best_fitness),
                       self1, calls2))))"

text \<open>
  The return statement \<^verbatim>\<open>return (best_solution.vector, best_fitness)\<close> reads the
  attribute \<^verbatim>\<open>vector\<close> of the individual.
\<close>

definition best_solution ::
  "objfunc \<Rightarrow> string \<Rightarrow> ES \<Rightarrow> Indiv list \<Rightarrow> (py_error + (pyobj \<times> real)) \<times> ES \<times> Indiv list" where
  "best_solution objfunc opt self calls =
     (case best_choice objfunc opt self calls of
        (Inl e, self1, calls1) \<Rightarrow> (Inl e, self1, calls1)
      | (Inr (best_sol, best_fitness), self1, calls1) \<Rightarrow>
          (case Indiv_getattr best_sol ''vector'' of
             Inl e \<Rightarrow> (Inl e, self1, calls1)
           | Inr v \<Rightarrow> (Inr (v, best_fitness), self1, calls1)))"

text \<open>
  What \<^verbatim>\<open>perturb\<close> calls. The draws of \<^verbatim>\<open>random.choice\<close> and the two operators,
  whose results are random, depend on the number of the iteration: \<open>choice k\<close> is the
  position drawn in iteration \<open>k\<close> (reduced modulo the length of the list).
  \<^verbatim>\<open>check_bounds\<close> is the repair of the objective function.
\<close>

record es_operators =
  choice :: "nat \<Rightarrow> nat"
  cross_op :: "nat \<Rightarrow> Indiv \<Rightarrow> Indiv list \<Rightarrow> vec"
  mutation_op :: "nat \<Rightarrow> Indiv \<Rightarrow> Indiv list \<Rightarrow> vec"
  check_bounds :: "vec \<Rightarrow> vec"

text \<open>
  One iteration of the loop of \<^verbatim>\<open>perturb\<close>. \<^verbatim>\<open>random.choice\<close> raises
  \<^verbatim>\<open>IndexError\<close> on an empty list; both individuals are built by
  \<^verbatim>\<open>Indiv(self.objfunc, new_solution)\<close>, with no speed, in the globals \<open>g\<close> of
  the module that defines \<^verbatim>\<open>Indiv\<close>.
\<close>

definition perturb_step ::
  "namespace \<Rightarrow> es_operators \<Rightarrow> ES \<Rightarrow> Indiv list \<Rightarrow> nat \<Rightarrow> py_error + Indiv" where
  "perturb_step g ops self parent_list k =
     (if parent_list = [] then Inl IndexError
      else
        (let parent1 = parent_list ! (choice ops k mod length parent_list);
             new_solution = check_bounds ops (cross_op ops k parent1 parent_list)
         in case Indiv_init g new_solution None of
              Inl e \<Rightarrow> Inl e
            | Inr new_ind \<Rightarrow>
                (case population_es self of
                   None \<Rightarrow> Inl (AttributeError ''population'')
                 | Some pop \<Rightarrow>
                     Indiv_init g (check_bounds ops (mutation_op ops k new_ind pop)) None)))"

text \<open>
  \<^verbatim>\<open>while len(offspring) < self.size\<close>: every iteration appends one individual, so
  the number of the iteration is the length of \<^verbatim>\<open>offspring\<close>.
\<close>

function perturb_loop ::
  "namespace \<Rightarrow> es_operators \<Rightarrow> ES \<Rightarrow> Indiv list \<Rightarrow> Indiv list \<Rightarrow> py_error + Indiv list" where
  "perturb_loop g ops self parent_list offspring =
     (if int (length offspring) < size_es self
      then (case perturb_step g ops self parent_list (length offspring) of
              Inl e \<Rightarrow> Inl e
            | Inr new_ind \<Rightarrow> perturb_loop g ops self parent_list (offspring @ [new_ind]))
      else Inr offspring)"
  by pat_completeness auto
termination
  by (relation "measure (\<lambda>(g, ops, self, parent_list, offspring).
                   nat (size_es self - int (length offspring)))") auto

declare perturb_loop.simps [simp del]

definition perturb :: "namespace \<Rightarrow> es_operators \<Rightarrow> ES \<Rightarrow> Indiv list \<Rightarrow> py_error + Indiv list" where
  "perturb g ops self parent_list = perturb_loop g ops self parent_list []"

text \<open>
  Concrete inputs: the globals of src/Individual.py with numpy imported in addition; a
  strategy configured with \<^verbatim>\<open>{"popSize": 2, "offspringSize": 3}\<close>; operators that
  always pick the first parent, cross to the parent's genotype plus the iteration
  number and mutate by doubling; bounds [-100, 100].
\<close>

definition Individual_globals_numpy :: namespace where
  "Individual_globals_numpy = (''np'', PyModule ''numpy'') # Individual_globals"

definition es_example :: ES where
  "es_example = ES_init [''popSize'' \<mapsto> 2, ''offspringSize'' \<mapsto> 3] (Some [fresh, candidate])"

definition example_operators :: es_operators where
  "example_operators =
     \<lparr>choice = (\<lambda>k. 0),
      cross_op = (\<lambda>k parent1 parent_list. map (\<lambda>x. x + real k) (u_genotype parent1)),
      mutation_op = (\<lambda>k indiv pop. map (\<lambda>x. 2 * x) (u_genotype indiv)),
      check_bounds = clip\<rparr>"

section \<open>Verification\<close>

subsection \<open>ObjectiveFunc: the constructor\<close>

lemma ObjectiveFunc_init_max:
  "ObjectiveFunc_init ''max'' n v r =
     Inr \<lparr>name = n, counter = 0, factor = 1, vectorized = v, recalculate = r, mode = ''max''\<rparr>"
  by (simp add: ObjectiveFunc_init_def)

lemma ObjectiveFunc_init_min:
  "ObjectiveFunc_init ''min'' n v r =
     Inr \<lparr>name = n, counter = 0, factor = - 1, vectorized = v, recalculate = r, mode = ''min''\<rparr>"
  by (simp add: ObjectiveFunc_init_def)

text \<open>
  Claim C9. A mode string other than "max" or "min" makes the constructor fail with
  \<^verbatim>\<open>ValueError\<close>: it returns no object at all, and (second part) an object is
  returned only for one of the two modes, with that very mode stored, so no default
  is substituted.
\<close>

theorem ObjectiveFunc_init_unknown_mode:
  "m \<noteq> ''max'' \<Longrightarrow> m \<noteq> ''min'' \<Longrightarrow>
     ObjectiveFunc_init m n v r = Inl (ValueError ''Optimization objective (mode) must be min or max.'')
     \<and> (\<forall>obj. ObjectiveFunc_init m n v r \<noteq> Inr obj)"
  by (simp add: ObjectiveFunc_init_def)

theorem ObjectiveFunc_init_unknown_mode_witness:
  "ObjectiveFunc_init ''minimize'' ''sphere'' False False
     = Inl (ValueError ''Optimization objective (mode) must be min or max.'')
   \<and> (\<forall>obj. ObjectiveFunc_init ''minimize'' ''sphere'' False False \<noteq> Inr obj)"
  using ObjectiveFunc_init_unknown_mode [of "''minimize''" "''sphere''" False False] by simp

subsection \<open>ObjectiveFunc: fitness\<close>

lemma mask_select_filter:
  "length cs = length xs \<Longrightarrow>
   mask_select (map P cs) xs = map fst (filter (\<lambda>z. P (snd z)) (zip xs cs))"
  by (induction cs xs rule: list_induct2) auto

lemma length_mask_select:
  "length m = length xs \<Longrightarrow> length (mask_select m xs) = length (filter id m)"
  by (induction m xs rule: list_induct2) auto

lemma length_mask_assign: "length (mask_assign m xs vs) = length xs"
  by (induction m xs vs rule: mask_assign.induct) auto

lemma mask_assign_nth:
  "length m = length xs \<Longrightarrow> length ys = length xs \<Longrightarrow> i < length xs \<Longrightarrow>
   mask_assign m xs (map f (mask_select m ys)) ! i = (if m ! i then f (ys ! i) else xs ! i)"
proof (induction m xs arbitrary: ys i rule: list_induct2)
  case Nil
  then show ?case by simp
next
  case (Cons b m x xs)
  then obtain y ys' where ys: "ys = y # ys'" by (cases ys) auto
  show ?case
  proof (cases i)
    case 0
    then show ?thesis using ys by (cases b) auto
  next
    case (Suc k)
    then show ?thesis using ys Cons by (cases b) auto
  qed
qed

lemma fitness_loop_result:
  "idx + length zs \<le> length fit \<Longrightarrow>
   \<exists>fit'. fitness_loop objective penal self adjusted idx zs fit ev
            = Inr (fit', ev @ map fst (filter (\<lambda>z. recalculate self \<or> snd z = 0) zs))
      \<and> length fit' = length fit
      \<and> (\<forall>j < idx. fit' ! j = fit ! j)
      \<and> (\<forall>k < length zs. fit' ! (idx + k) =
            (if recalculate self \<or> snd (zs ! k) = 0
             then evaluate objective penal self adjusted (fst (zs ! k))
             else fit ! (idx + k)))"
proof (induction zs arbitrary: idx fit ev)
  case Nil
  then show ?case by simp
next
  case (Cons z zs)
  obtain s c where z: "z = (s, c)" by (cases z)
  let ?new = "recalculate self \<or> c = 0"
  let ?fit1 = "if ?new then fit[idx := evaluate objective penal self adjusted s] else fit"
  let ?ev1 = "if ?new then ev @ [s] else ev"
  have len: "Suc idx + length zs \<le> length ?fit1" using Cons.prems by simp
  from Cons.IH [OF len, of ?ev1] obtain fit' where
    r: "fitness_loop objective penal self adjusted (Suc idx) zs ?fit1 ?ev1
          = Inr (fit', ?ev1 @ map fst (filter (\<lambda>z. recalculate self \<or> snd z = 0) zs))"
    and l: "length fit' = length ?fit1"
    and lo: "\<forall>j < Suc idx. fit' ! j = ?fit1 ! j"
    and hi: "\<forall>k < length zs. fit' ! (Suc idx + k) =
            (if recalculate self \<or> snd (zs ! k) = 0
             then evaluate objective penal self adjusted (fst (zs ! k))
             else ?fit1 ! (Suc idx + k))"
    by blast
  have idx: "idx < length fit" using Cons.prems by simp
  have 1: "fitness_loop objective penal self adjusted idx (z # zs) fit ev
            = Inr (fit', ev @ map fst (filter (\<lambda>z. recalculate self \<or> snd z = 0) (z # zs)))"
    using r idx by (auto simp: z)
  have 2: "length fit' = length fit" using l by simp
  have 3: "\<forall>j < idx. fit' ! j = fit ! j" using lo by auto
  have 4: "\<forall>k < length (z # zs). fit' ! (idx + k) =
            (if recalculate self \<or> snd ((z # zs) ! k) = 0
             then evaluate objective penal self adjusted (fst ((z # zs) ! k))
             else fit ! (idx + k))"
  proof (intro allI impI)
    fix k assume k: "k < length (z # zs)"
    show "fit' ! (idx + k) =
            (if recalculate self \<or> snd ((z # zs) ! k) = 0
             then evaluate objective penal self adjusted (fst ((z # zs) ! k))
             else fit ! (idx + k))"
    proof (cases k)
      case 0
      then show ?thesis using lo idx by (auto simp: z)
    next
      case (Suc k')
      then have "k' < length zs" using k by simp
      then show ?thesis using hi Suc by auto
    qed
  qed
  show ?case using 1 2 3 4 by blast
qed

lemma fitness_returns:
  assumes lf: "length (pop_fitness p) = length (decode p)"
    and lc: "length (pop_fitness_calculated p) = length (decode p)"
  shows "\<exists>fit fit_stored.
     fitness objective penal self p adjusted =
       Inr (fit,
            self\<lparr>counter := counter self + counter_step self p\<rparr>,
            p\<lparr>pop_fitness := fit_stored,
              pop_fitness_calculated := replicate (length (decode p)) 1\<rparr>,
            map fst (filter (\<lambda>z. is_evaluated self (snd z))
                       (zip (decode p) (pop_fitness_calculated p))))
     \<and> length fit = length (decode p)
     \<and> (\<forall>i < length (decode p). fit ! i =
           (if is_evaluated self (pop_fitness_calculated p ! i)
            then evaluate objective penal self adjusted (decode p ! i)
            else pop_fitness p ! i))"
proof (cases "vectorized self")
  case False
  let ?zs = "zip (decode p) (pop_fitness_calculated p)"
  have "0 + length ?zs \<le> length (pop_fitness p)" using lf lc by simp
  from fitness_loop_result [OF this, of objective penal self adjusted "[]"]
  obtain fit' where
    r: "fitness_loop objective penal self adjusted 0 ?zs (pop_fitness p) []
          = Inr (fit', map fst (filter (\<lambda>z. recalculate self \<or> snd z = 0) ?zs))"
    and l: "length fit' = length (pop_fitness p)"
    and hi: "\<forall>k < length ?zs. fit' ! k =
            (if recalculate self \<or> snd (?zs ! k) = 0
             then evaluate objective penal self adjusted (fst (?zs ! k))
             else pop_fitness p ! k)"
    by auto
  have ev: "(\<lambda>z::'a \<times> int. recalculate self \<or> snd z = 0) = (\<lambda>z. is_evaluated self (snd z))"
    using False by (auto simp: is_evaluated_def)
  have eq: "fitness objective penal self p adjusted =
       Inr (fit',
            self\<lparr>counter := counter self + counter_step self p\<rparr>,
            p\<lparr>pop_fitness := fit',
              pop_fitness_calculated := replicate (length (decode p)) 1\<rparr>,
            map fst (filter (\<lambda>z. is_evaluated self (snd z)) ?zs))"
    using False r lc unfolding ev by (simp add: fitness_def counter_step_def Let_def)
  have nth: "\<forall>i < length (decode p). fit' ! i =
           (if is_evaluated self (pop_fitness_calculated p ! i)
            then evaluate objective penal self adjusted (decode p ! i)
            else pop_fitness p ! i)"
    using hi lc False by (auto simp: is_evaluated_def)
  show ?thesis
    apply (rule exI [of _ fit'])
    apply (rule exI [of _ fit'])
    using eq l lf nth by simp
next
  case True
  let ?m = "map (\<lambda>c. c = 0) (pop_fitness_calculated p)"
  show ?thesis
  proof (cases "recalculate self")
    case r: True
    let ?batch = "mask_select ?m (decode p)"
    let ?new = "map (evaluate objective penal self adjusted) ?batch"
    let ?fit = "mask_assign ?m (pop_fitness p) ?new"
    have b: "?batch = map fst (filter (\<lambda>z. is_evaluated self (snd z))
                       (zip (decode p) (pop_fitness_calculated p)))"
      using mask_select_filter [OF lc, of "\<lambda>c. c = 0"] True r
      by (simp add: is_evaluated_def)
    have ln: "length ?new = length (filter id ?m)"
      using length_mask_select [of ?m "decode p"] lc by simp
    have eq: "fitness objective penal self p adjusted =
       Inr (?fit,
            self\<lparr>counter := counter self + counter_step self p\<rparr>,
            p\<lparr>pop_fitness := ?fit,
              pop_fitness_calculated := replicate (length (decode p)) 1\<rparr>,
            ?batch)"
      using True r lc lf ln
      by (simp add: fitness_def counter_step_def Let_def masked_get_def masked_set_def)
    have nth: "\<forall>i < length (decode p). ?fit ! i =
           (if is_evaluated self (pop_fitness_calculated p ! i)
            then evaluate objective penal self adjusted (decode p ! i)
            else pop_fitness p ! i)"
    proof (intro allI impI)
      fix i assume i: "i < length (decode p)"
      have "?fit ! i = (if ?m ! i then evaluate objective penal self adjusted (decode p ! i)
                        else pop_fitness p ! i)"
        by (rule mask_assign_nth) (use lc lf i in simp_all)
      moreover have "?m ! i = (pop_fitness_calculated p ! i = 0)" using i lc by simp
      ultimately show "?fit ! i =
           (if is_evaluated self (pop_fitness_calculated p ! i)
            then evaluate objective penal self adjusted (decode p ! i)
            else pop_fitness p ! i)"
        using True r by (simp only: is_evaluated_def if_True simp_thms)
    qed
    show ?thesis
      apply (rule exI [of _ ?fit])
      apply (rule exI [of _ ?fit])
      using eq nth length_mask_assign [of ?m "pop_fitness p" ?new] lf
      unfolding b by simp
  next
    case r: False
    let ?new = "map (evaluate objective penal self adjusted) (decode p)"
    have all: "filter (\<lambda>z. is_evaluated self (snd z)) (zip (decode p) (pop_fitness_calculated p))
                 = zip (decode p) (pop_fitness_calculated p)"
      using True r by (simp add: is_evaluated_def)
    have eq: "fitness objective penal self p adjusted =
       Inr (?new,
            self\<lparr>counter := counter self + counter_step self p\<rparr>,
            p\<lparr>pop_fitness := pop_fitness p,
              pop_fitness_calculated := replicate (length (decode p)) 1\<rparr>,
            map fst (filter (\<lambda>z. is_evaluated self (snd z))
                       (zip (decode p) (pop_fitness_calculated p))))"
      using True r lc unfolding all
      by (simp add: fitness_def counter_step_def Let_def)
    have nth: "\<forall>i < length (decode p). ?new ! i =
           (if is_evaluated self (pop_fitness_calculated p ! i)
            then evaluate objective penal self adjusted (decode p ! i)
            else pop_fitness p ! i)"
      using True r by (simp add: is_evaluated_def)
    show ?thesis
      apply (rule exI [of _ ?new])
      apply (rule exI [of _ "pop_fitness p"])
      using eq nth by simp
  qed
qed

text \<open>
  Claim C7. On a population with one fitness entry and one flag per solution, a call
  of \<^verbatim>\<open>fitness\<close> with \<^verbatim>\<open>adjusted\<close> returns normally, and for every solution it
  evaluates in that call the returned entry is \<open>- (objective s - penalize s)\<close> when
  the objective function was built with mode "min", and \<open>objective s - penalize s\<close>
  when it was built with mode "max"; the penalty of the base class is 0 for every
  input.
\<close>

theorem fitness_adjusted_value:
  assumes "length (pop_fitness p) = length (decode p)"
    and "length (pop_fitness_calculated p) = length (decode p)"
  shows "(\<forall>nm v r self. ObjectiveFunc_init ''min'' nm v r = Inr self \<longrightarrow>
           (\<exists>fit self' p' ev. fitness objective penal self p True = Inr (fit, self', p', ev)
              \<and> ev = map fst (filter (\<lambda>z. is_evaluated self (snd z))
                                 (zip (decode p) (pop_fitness_calculated p)))
              \<and> (\<forall>i < length (decode p). is_evaluated self (pop_fitness_calculated p ! i) \<longrightarrow>
                    fit ! i = - (objective (decode p ! i) - penal (decode p ! i)))))
       \<and> (\<forall>nm v r self. ObjectiveFunc_init ''max'' nm v r = Inr self \<longrightarrow>
           (\<exists>fit self' p' ev. fitness objective penal self p True = Inr (fit, self', p', ev)
              \<and> ev = map fst (filter (\<lambda>z. is_evaluated self (snd z))
                                 (zip (decode p) (pop_fitness_calculated p)))
              \<and> (\<forall>i < length (decode p). is_evaluated self (pop_fitness_calculated p ! i) \<longrightarrow>
                    fit ! i = objective (decode p ! i) - penal (decode p ! i))))
       \<and> (\<forall>x. penalize x = 0)"
proof (intro conjI allI impI)
  fix nm v r self
  assume "ObjectiveFunc_init ''min'' nm v r = Inr self"
  then have f: "factor self = - 1" by (auto simp: ObjectiveFunc_init_min)
  from fitness_returns [OF assms, of objective penal self True]
  show "\<exists>fit self' p' ev. fitness objective penal self p True = Inr (fit, self', p', ev)
              \<and> ev = map fst (filter (\<lambda>z. is_evaluated self (snd z))
                                 (zip (decode p) (pop_fitness_calculated p)))
              \<and> (\<forall>i < length (decode p). is_evaluated self (pop_fitness_calculated p ! i) \<longrightarrow>
                    fit ! i = - (objective (decode p ! i) - penal (decode p ! i)))"
    using f by (auto simp: evaluate_def)
next
  fix nm v r self
  assume "ObjectiveFunc_init ''max'' nm v r = Inr self"
  then have f: "factor self = 1" by (auto simp: ObjectiveFunc_init_max)
  from fitness_returns [OF assms, of objective penal self True]
  show "\<exists>fit self' p' ev. fitness objective penal self p True = Inr (fit, self', p', ev)
              \<and> ev = map fst (filter (\<lambda>z. is_evaluated self (snd z))
                                 (zip (decode p) (pop_fitness_calculated p)))
              \<and> (\<forall>i < length (decode p). is_evaluated self (pop_fitness_calculated p ! i) \<longrightarrow>
                    fit ! i = objective (decode p ! i) - penal (decode p ! i))"
    using f by (auto simp: evaluate_def)
next
  fix x :: 'c show "penalize x = 0" by (simp add: penalize_def)
qed

lemma two_solutions_min:
  "fitness sum_list penalize min_sphere two_solutions True
     = Inr ([- 3, 7], min_sphere\<lparr>counter := 1\<rparr>,
            two_solutions\<lparr>pop_fitness := [- 3, 7], pop_fitness_calculated := [1, 1]\<rparr>,
            [[1, 2]])"
  by (simp add: fitness_def min_sphere_def two_solutions_def evaluate_def penalize_def)

theorem fitness_adjusted_value_witness:
  "length (pop_fitness two_solutions) = length (decode two_solutions)
   \<and> length (pop_fitness_calculated two_solutions) = length (decode two_solutions)
   \<and> ObjectiveFunc_init ''min'' ''sphere'' False False = Inr min_sphere
   \<and> ObjectiveFunc_init ''max'' ''sphere'' False False = Inr max_sphere
   \<and> is_evaluated min_sphere (pop_fitness_calculated two_solutions ! 0)
   \<and> is_evaluated max_sphere (pop_fitness_calculated two_solutions ! 0)
   \<and> (\<exists>fit self' p' ev.
         fitness sum_list penalize min_sphere two_solutions True = Inr (fit, self', p', ev)
         \<and> ev = [[1, 2]] \<and> fit ! 0 = - 3)
   \<and> (\<exists>fit self' p' ev.
         fitness sum_list penalize max_sphere two_solutions True = Inr (fit, self', p', ev)
         \<and> ev = [[1, 2]] \<and> fit ! 0 = 3)"
proof -
  have h1: "length (pop_fitness two_solutions) = length (decode two_solutions)"
    and h2: "length (pop_fitness_calculated two_solutions) = length (decode two_solutions)"
    by (simp_all add: two_solutions_def)
  have i1: "ObjectiveFunc_init ''min'' ''sphere'' False False = Inr min_sphere"
    and i2: "ObjectiveFunc_init ''max'' ''sphere'' False False = Inr max_sphere"
    by (simp_all add: ObjectiveFunc_init_def min_sphere_def max_sphere_def)
  have e1: "is_evaluated min_sphere (pop_fitness_calculated two_solutions ! 0)"
    and e2: "is_evaluated max_sphere (pop_fitness_calculated two_solutions ! 0)"
    by (simp_all add: is_evaluated_def min_sphere_def max_sphere_def two_solutions_def)
  have n: "0 < length (decode two_solutions)" by (simp add: two_solutions_def)
  have l1: "map fst (filter (\<lambda>z. is_evaluated min_sphere (snd z))
              (zip (decode two_solutions) (pop_fitness_calculated two_solutions))) = [[1, 2]]"
    and l2: "map fst (filter (\<lambda>z. is_evaluated max_sphere (snd z))
              (zip (decode two_solutions) (pop_fitness_calculated two_solutions))) = [[1, 2]]"
    by (simp_all add: is_evaluated_def min_sphere_def max_sphere_def two_solutions_def)
  have v: "sum_list (decode two_solutions ! 0) - penalize (decode two_solutions ! 0) = 3"
    by (simp add: two_solutions_def penalize_def)
  note t = fitness_adjusted_value [OF h1 h2, of sum_list penalize]
  from t i1 obtain fit self' p' ev where
    a: "fitness sum_list penalize min_sphere two_solutions True = Inr (fit, self', p', ev)"
    and b: "ev = map fst (filter (\<lambda>z. is_evaluated min_sphere (snd z))
              (zip (decode two_solutions) (pop_fitness_calculated two_solutions)))"
    and c: "\<forall>i < length (decode two_solutions).
              is_evaluated min_sphere (pop_fitness_calculated two_solutions ! i) \<longrightarrow>
              fit ! i = - (sum_list (decode two_solutions ! i) - penalize (decode two_solutions ! i))"
    by blast
  from t i2 obtain fit2 self2 p2 ev2 where
    a2: "fitness sum_list penalize max_sphere two_solutions True = Inr (fit2, self2, p2, ev2)"
    and b2: "ev2 = map fst (filter (\<lambda>z. is_evaluated max_sphere (snd z))
              (zip (decode two_solutions) (pop_fitness_calculated two_solutions)))"
    and c2: "\<forall>i < length (decode two_solutions).
              is_evaluated max_sphere (pop_fitness_calculated two_solutions ! i) \<longrightarrow>
              fit2 ! i = sum_list (decode two_solutions ! i) - penalize (decode two_solutions ! i)"
    by blast
  have "fit ! 0 = - 3" using c n e1 v by simp
  moreover have "fit2 ! 0 = 3" using c2 n e2 v by simp
  ultimately show ?thesis using h1 h2 i1 i2 e1 e2 a a2 b b2 l1 l2 by simp
qed

text \<open>
  The counter. Without \<^verbatim>\<open>vectorized\<close> the counter grows by the number of
  solutions evaluated, and in every branch all flags are 1 afterwards.
\<close>

lemma count_not_calculated:
  "\<forall>c \<in> set cs. c = 0 \<or> c = (1::int) \<Longrightarrow>
   int (length (filter (\<lambda>c. c = 0) cs)) = int (length cs) - sum_list cs"
  by (induction cs) auto

lemma length_filter_zip_snd:
  "length xs = length cs \<Longrightarrow>
   length (filter (\<lambda>z. P (snd z)) (zip xs cs)) = length (filter P cs)"
  by (induction xs cs rule: list_induct2) auto

lemma fitness_counter_not_vectorized:
  assumes "wf_population p" and "\<not> vectorized self"
  shows "\<exists>fit self' p' ev. fitness objective penal self p adjusted = Inr (fit, self', p', ev)
           \<and> counter self' = counter self + int (length ev)
           \<and> pop_fitness_calculated p' = replicate (length (pop_fitness_calculated p)) 1"
proof -
  have lf: "length (pop_fitness p) = length (decode p)"
    and lc: "length (pop_fitness_calculated p) = length (decode p)"
    and ps: "pop_size p = int (length (decode p))"
    and fl: "\<forall>c \<in> set (pop_fitness_calculated p). c = 0 \<or> c = 1"
    using assms(1) by (simp_all add: wf_population_def)
  have n: "int (length (filter (\<lambda>z. is_evaluated self (snd z))
                    (zip (decode p) (pop_fitness_calculated p)))) = counter_step self p"
  proof (cases "recalculate self")
    case True
    then show ?thesis using assms(2) lc ps by (simp add: is_evaluated_def counter_step_def)
  next
    case False
    then have "is_evaluated self = (\<lambda>c. c = 0)" using assms(2) by (auto simp: is_evaluated_def)
    then show ?thesis
      using length_filter_zip_snd [of "decode p" "pop_fitness_calculated p" "\<lambda>c. c = 0"]
        count_not_calculated [OF fl] lc ps False
      by (simp add: counter_step_def)
  qed
  from fitness_returns [OF lf lc, of objective penal self adjusted]
  show ?thesis using n lc by auto
qed

lemma fitness_marks_calculated:
  assumes "length (pop_fitness p) = length (decode p)"
    and "length (pop_fitness_calculated p) = length (decode p)"
  shows "\<exists>fit self' p' ev. fitness objective penal self p adjusted = Inr (fit, self', p', ev)
           \<and> pop_fitness_calculated p' = replicate (length (pop_fitness_calculated p)) 1
           \<and> counter self' = counter self + counter_step self p"
  using fitness_returns [OF assms, of objective penal self adjusted] assms(2) by auto

text \<open>
  Claim C10. After a call every flag of the population is 1, and the counter has
  grown by the number of solutions the call evaluated. The second part fails in the
  vectorized branch, whose test of \<^verbatim>\<open>recalculate\<close> is the opposite of the loop's:
  on two solutions of which the second is already calculated, with
  \<^verbatim>\<open>recalculate\<close> one solution is evaluated and the counter grows by 2; without it
  both are evaluated and the counter grows by 1.
\<close>

theorem fitness_counter_vectorized:
  "fitness sum_list penalize vectorized_recalculate two_solutions True
     = Inr ([3, 7], vectorized_recalculate\<lparr>counter := 2\<rparr>,
            two_solutions\<lparr>pop_fitness := [3, 7], pop_fitness_calculated := [1, 1]\<rparr>,
            [[1, 2]])
   \<and> fitness sum_list penalize vectorized_plain two_solutions True
     = Inr ([3, 7], vectorized_plain\<lparr>counter := 1\<rparr>,
            two_solutions\<lparr>pop_fitness_calculated := [1, 1]\<rparr>,
            [[1, 2], [3, 4]])"
  by (simp add: fitness_def vectorized_recalculate_def vectorized_plain_def two_solutions_def
      evaluate_def penalize_def masked_get_def masked_set_def Let_def)

subsection \<open>Individual: the fitness cache\<close>

lemma fitness_getter_cached:
  "fitness_calculated self \<Longrightarrow> fitness_getter objfunc self calls = (u_fitness self, self, calls)"
  by (simp add: fitness_getter_def)

lemma fitness_getter_computes:
  "\<not> fitness_calculated self \<Longrightarrow>
   fitness_getter objfunc self calls =
     (objfunc calls self, fitness_setter (objfunc calls self) self, calls @ [self])"
  by (simp add: fitness_getter_def fitness_setter_def)

lemma fitness_getter_sets_flag:
  "fitness_getter objfunc self calls = (v, self', calls') \<Longrightarrow>
   fitness_calculated self' \<and> u_fitness self' = v \<and> u_genotype self' = u_genotype self
   \<and> best self' = best self \<and> speed self' = speed self"
  by (auto simp: fitness_getter_def fitness_setter_def Let_def split: if_splits)

text \<open>
  Claim C1. Reading the fitness twice with no assignment to the genotype in between
  returns the same value twice, and the second read leaves the individual and the
  calls as they are. When the fitness was not yet calculated, the first read calls the
  objective function once, on the individual, stores the value and sets the flag: one
  call for the two reads. Assigning the genotype clears the flag, and the next read
  calls the objective function again, on the individual with the new genotype.
\<close>

theorem fitness_read_twice:
  "(let (v1, self1, calls1) = fitness_getter objfunc self calls;
        (v2, self2, calls2) = fitness_getter objfunc self1 calls1
    in v2 = v1 \<and> self2 = self1 \<and> calls2 = calls1 \<and> fitness_calculated self1
       \<and> u_fitness self1 = v1
       \<and> (\<not> fitness_calculated self \<longrightarrow>
            v1 = objfunc calls self \<and> calls2 = calls @ [self])
       \<and> (fitness_calculated self \<longrightarrow>
            v1 = u_fitness self \<and> calls2 = calls))
   \<and> \<not> fitness_calculated (genotype_setter vector self)
   \<and> fitness_getter objfunc (genotype_setter vector self) calls =
       (objfunc calls (genotype_setter vector self),
        fitness_setter (objfunc calls (genotype_setter vector self)) (genotype_setter vector self),
        calls @ [genotype_setter vector self])"
  by (simp add: fitness_getter_def fitness_setter_def genotype_setter_def Let_def)

theorem fitness_read_twice_witness:
  "\<not> fitness_calculated fresh
   \<and> fitness_getter score fresh [] = (10, fitness_setter 10 fresh, [fresh])
   \<and> fitness_getter score (fitness_setter 10 fresh) [fresh] = (10, fitness_setter 10 fresh, [fresh])
   \<and> \<not> fitness_calculated (genotype_setter [1] (fitness_setter 10 fresh))
   \<and> fst (fitness_getter score (genotype_setter [1] (fitness_setter 10 fresh)) [fresh]) = 1
   \<and> snd (snd (fitness_getter score (genotype_setter [1] (fitness_setter 10 fresh)) [fresh]))
        = [fresh, genotype_setter [1] (fitness_setter 10 fresh)]"
  using fitness_read_twice [of score fresh "[]" "[1]"]
    fitness_read_twice [of score "fitness_setter 10 fresh" "[fresh]" "[1]"]
  by (simp add: fitness_getter_def fitness_setter_def genotype_setter_def Let_def
      score_def fresh_def)

subsection \<open>Individual: store\_best\<close>

lemma store_best_result:
  "store_best objfunc self past_indiv calls =
     (let r1 = fitness_getter objfunc self calls;
          r2 = fitness_getter objfunc past_indiv (snd (snd r1))
      in ((fst (snd r1))\<lparr>best := if fst r1 < fst r2 then u_genotype past_indiv
                                  else best self\<rparr>,
          fst (snd r2), snd (snd r2)))"
  by (auto simp: store_best_def fitness_getter_def fitness_setter_def genotype_getter_def
      Let_def split: prod.splits)

text \<open>
  Claim C8, as stated: the stored best is never replaced by a genotype that scores
  lower. It fails for an individual whose genotype was assigned after construction:
  \<open>moved\<close> stores [10] (score 10) and holds [1] (score 1); \<^verbatim>\<open>store_best\<close> compares
  the candidate's 5 with 1 and stores [5], of score 5.
\<close>

theorem store_best_worsens:
  "best moved = [10]
   \<and> best (fst (store_best score moved candidate [])) = [5]
   \<and> score [] (moved\<lparr>u_genotype := best (fst (store_best score moved candidate []))\<rparr>)
       < score [] (moved\<lparr>u_genotype := best moved\<rparr>)"
  by (simp add: store_best_def fitness_getter_def fitness_setter_def genotype_getter_def
      genotype_setter_def Let_def score_def moved_def fresh_def candidate_def)

text \<open>
  Claim C8, amended. \<^verbatim>\<open>store_best\<close> reads the individual's own fitness and the
  candidate's (cached or computed) and replaces the stored best by the candidate's
  genotype exactly when the own fitness is strictly lower; otherwise the stored best
  stays as it is. Neither genotype changes. When the stored best is the individual's
  current genotype, as it is from construction until the genotype is assigned, the
  stored best afterwards is the genotype of whichever of the two has the higher
  fitness (the own one on a tie), and the fitness that goes with it is not lower than
  the one that went with the stored best before.
\<close>

theorem store_best_keeps_higher:
  "(let (fit_self, self1, calls1) = fitness_getter objfunc self calls;
        (fit_past, past1, calls2) = fitness_getter objfunc past_indiv calls1;
        (self', past', calls') = store_best objfunc self past_indiv calls
    in best self' = (if fit_self < fit_past then u_genotype past_indiv else best self)
       \<and> u_genotype self' = u_genotype self \<and> u_genotype past' = u_genotype past_indiv
       \<and> best past' = best past_indiv
       \<and> fitness_calculated self' \<and> u_fitness self' = fit_self
       \<and> fitness_calculated past' \<and> u_fitness past' = fit_past
       \<and> calls' = calls2
       \<and> (best self = u_genotype self \<longrightarrow>
            (best self' = u_genotype self' \<and> fit_past \<le> fit_self)
            \<or> (best self' = u_genotype past' \<and> fit_self < fit_past)))"
  by (auto simp: store_best_def fitness_getter_def fitness_setter_def genotype_getter_def
      Let_def split: prod.splits)

theorem store_best_keeps_higher_witness:
  "best fresh = u_genotype fresh
   \<and> fst (fitness_getter score fresh []) = 10
   \<and> fst (fitness_getter score candidate [fresh]) = 5
   \<and> best (fst (store_best score fresh candidate [])) = [10]
   \<and> best candidate = u_genotype candidate
   \<and> fst (fitness_getter score candidate []) = 5
   \<and> fst (fitness_getter score fresh [candidate]) = 10
   \<and> best (fst (store_best score candidate fresh [])) = [10]"
  using store_best_keeps_higher [of score fresh "[]" candidate]
    store_best_keeps_higher [of score candidate "[]" fresh]
  by (simp add: store_best_def fitness_getter_def fitness_setter_def genotype_getter_def
      Let_def score_def fresh_def candidate_def)

subsection \<open>Individual: reproduce\<close>

lemma new_vector_unbound: "load_global Individual_globals ''new_vector'' = Inl (NameError ''new_vector'')"
  by (simp add: load_global_def Individual_globals_def module_attributes_def)

lemma np_unbound: "load_global Individual_globals ''np'' = Inl (NameError ''np'')"
  by (simp add: load_global_def Individual_globals_def module_attributes_def)

text \<open>
  Claim C6. \<^verbatim>\<open>reproduce\<close> returns the repaired genotype wrapped in a new individual
  and leaves \<^verbatim>\<open>self\<close> as it was. With the module as it is, no call returns an
  individual: whatever the operator, the repair, the store and the population, the
  call ends in \<^verbatim>\<open>NameError\<close>, because the last line reads \<^verbatim>\<open>new_vector\<close>, a name
  bound nowhere. Before that, the repaired genotype is assigned to the operator's
  result: when the operator hands back \<^verbatim>\<open>self\<close>, it is \<^verbatim>\<open>self\<close> whose genotype
  is replaced and whose cache flag is cleared.
\<close>

theorem reproduce_raises:
  "fst (reproduce Individual_globals operator repair_solution h self population)
     = Inl (NameError ''new_vector'')
   \<and> reproduce Individual_globals same_indiv clip [far_out] 0 [0]
     = (Inl (NameError ''new_vector''),
        [far_out\<lparr>u_genotype := [100], fitness_calculated := False\<rparr>])"
  by (simp add: reproduce_def new_vector_unbound same_indiv_def clip_def far_out_def
      genotype_setter_def genotype_getter_def Let_def split: prod.splits)

subsection \<open>OperatorSplit: evolve\<close>

lemma op_list_unbound:
  "load_global OperatorSplit_globals ''op_list'' = Inl (NameError ''op_list'')"
  by (simp add: load_global_def OperatorSplit_globals_def module_attributes_def)

lemma evolve_as_shipped:
  "evolve OperatorSplit_globals self h indiv population = (Inl (NameError ''op_list''), h)"
  by (simp add: evolve_def op_list_unbound)

lemma split_example_loop:
  "evolve_loop split_example (enumerate 0 (op_list split_example)) [four_dim] 0 [0]
     = (Inr (),
        [four_dim\<lparr>u_genotype := [11, 13, 13, 11]\<rparr>,
         four_dim\<lparr>u_genotype := [11, 12, 13, 14]\<rparr>,
         four_dim\<lparr>u_genotype := [4, 13, 2, 11]\<rparr>])"
  by (simp add: split_example_def four_dim_def add_ten_def reversed_def masked_get_def
      masked_set_def genotype_getter_def enumerate_eq_zip upt_rec)

text \<open>
  With \<^verbatim>\<open>op_list\<close> and \<^verbatim>\<open>result\<close> bound in the module's globals the call returns:
  the loop overwrites the individual and the value returned is whatever \<^verbatim>\<open>result\<close>
  is bound to.
\<close>

lemma evolve_names_bound:
  "evolve ((''op_list'', PyOperators (op_list split_example)) # (''result'', PyArray [])
           # OperatorSplit_globals) split_example [four_dim] 0 [0]
     = (Inr (PyArray []),
        [four_dim\<lparr>u_genotype := [11, 13, 13, 11]\<rparr>,
         four_dim\<lparr>u_genotype := [11, 12, 13, 14]\<rparr>,
         four_dim\<lparr>u_genotype := [4, 13, 2, 11]\<rparr>])"
  by (simp add: evolve_def load_global_def split_example_loop)

text \<open>
  Claim C3. For two operators under the mask [0, 1, 0, 1] on a genotype of four
  positions, \<^verbatim>\<open>evolve\<close> returns a genotype with positions 0 and 2 from operator 0's
  result and positions 1 and 3 from operator 1's result, both operators evaluated on
  the original individual. With the module as it is, no call returns a genotype: the
  loop header reads \<^verbatim>\<open>op_list\<close>, a name bound nowhere, and the call ends in
  \<^verbatim>\<open>NameError\<close>. The loop body itself, run over the operators of the split on the
  individual [1, 2, 3, 4], is a pipeline: operator 1 is given the individual that
  operator 0's positions were already written into, so positions 1 and 3 end as 13
  and 11, where operator 1 on the original individual gives 3 and 1.
\<close>

theorem evolve_split_not_parallel:
  "fst (evolve OperatorSplit_globals self h indiv population) = Inl (NameError ''op_list'')
   \<and> u_genotype (snd (evolve_loop split_example (enumerate 0 (op_list split_example))
                       [four_dim] 0 [0]) ! 0) = [11, 13, 13, 11]
   \<and> u_genotype (snd (add_ten [four_dim] 0 [0]) ! fst (add_ten [four_dim] 0 [0]))
       = [11, 12, 13, 14]
   \<and> u_genotype (snd (reversed [four_dim] 0 [0]) ! fst (reversed [four_dim] 0 [0]))
       = [4, 3, 2, 1]"
  by (simp add: evolve_as_shipped split_example_loop)
     (simp add: add_ten_def reversed_def four_dim_def)

text \<open>
  Claim C5. A call of \<^verbatim>\<open>evolve\<close> leaves the input individual and the members of
  the population unchanged and returns a freshly computed genotype. With the module
  as it is the call returns nothing (\<^verbatim>\<open>NameError\<close> at the loop header, before any
  write). The loop body writes into the genotype of the input individual in place: run
  over the operators of the split, it turns the individual at position 0 of the store,
  which is also the one member of the population, from [1, 2, 3, 4] into
  [11, 13, 13, 11], and its cached fitness stays marked as calculated.
\<close>

theorem evolve_split_writes_in_place:
  "evolve OperatorSplit_globals self h indiv population = (Inl (NameError ''op_list''), h)
   \<and> [four_dim] ! 0 = four_dim
   \<and> snd (evolve_loop split_example (enumerate 0 (op_list split_example)) [four_dim] 0 [0]) ! 0
       = four_dim\<lparr>u_genotype := [11, 13, 13, 11]\<rparr>
   \<and> u_genotype four_dim = [1, 2, 3, 4]
   \<and> fitness_calculated (four_dim\<lparr>u_genotype := [11, 13, 13, 11]\<rparr>)"
  by (simp add: evolve_as_shipped split_example_loop) (simp add: four_dim_def)

subsection \<open>ES: best\_solution\<close>

lemma Indiv_has_no_vector: "Indiv_getattr indiv ''vector'' = Inl (AttributeError ''vector'')"
  by (simp add: Indiv_getattr_def)

lemma last_filter: "xs \<noteq> [] \<Longrightarrow> P (last xs) \<Longrightarrow> last (filter P xs) = last xs"
proof (induction xs)
  case Nil
  then show ?case by simp
next
  case (Cons a xs)
  show ?case
  proof (cases "xs = []")
    case True
    then show ?thesis using Cons.prems by simp
  next
    case False
    then have p: "P (last xs)" using Cons.prems by simp
    then have l: "last (filter P xs) = last xs" using Cons.IH False by simp
    have "last xs \<in> set xs" using False by simp
    then have "filter P xs \<noteq> []" using p by (auto simp: filter_empty_conv)
    then show ?thesis using l False by simp
  qed
qed

lemma sorted_last_max:
  "sorted (map f xs) \<Longrightarrow> xs \<noteq> [] \<Longrightarrow> f (last xs) = Max (f ` set xs)"
proof (induction xs)
  case Nil
  then show ?case by simp
next
  case (Cons x xs)
  show ?case
  proof (cases "xs = []")
    case True
    then show ?thesis by simp
  next
    case False
    then have "f (last xs) = Max (f ` set xs)" using Cons by simp
    moreover have "f x \<le> f (last xs)" using Cons.prems False by auto
    ultimately show ?thesis using False by (simp add: max_def)
  qed
qed

text \<open>
  The first element of the sorted list is the first element of the list whose key is
  the greatest: ties go to the earliest.
\<close>

lemma sorted_reverse_hd:
  assumes "xs \<noteq> []"
  shows "hd (sorted_reverse f xs) = hd (filter (\<lambda>y. f y = Max (f ` set xs)) xs)"
proof -
  let ?s = "sort_key f (rev xs)"
  let ?m = "Max (f ` set xs)"
  have ne: "?s \<noteq> []" using assms by (metis length_sort length_rev length_0_conv)
  have m: "f (last ?s) = ?m"
    using sorted_last_max [of f ?s] ne by simp
  have "hd (sorted_reverse f xs) = last ?s"
    using ne by (simp add: sorted_reverse_def hd_rev)
  also have "\<dots> = last (filter (\<lambda>y. f y = ?m) ?s)"
    using last_filter [of ?s "\<lambda>y. f y = ?m"] ne m by simp
  also have "filter (\<lambda>y. f y = ?m) ?s = filter (\<lambda>y. f y = ?m) (rev xs)"
    by (rule sort_key_stable)
  also have "last (filter (\<lambda>y. f y = ?m) (rev xs)) = hd (filter (\<lambda>y. f y = ?m) xs)"
    by (simp add: rev_filter [symmetric] last_rev)
  finally show ?thesis .
qed

lemma fitness_keys_length:
  "fitness_keys objfunc pop calls = (keyed, calls') \<Longrightarrow> length keyed = length pop"
  by (induction pop arbitrary: calls keyed calls')
     (auto simp: Let_def split: prod.splits)

lemma fitness_keys_cached:
  "fitness_keys objfunc pop calls = (keyed, calls') \<Longrightarrow> (k, c) \<in> set keyed \<Longrightarrow>
   fitness_calculated c \<and> u_fitness c = k"
proof (induction pop arbitrary: calls keyed calls')
  case Nil
  then show ?case by simp
next
  case (Cons a pop)
  obtain k1 c1 calls1 where g: "fitness_getter objfunc a calls = (k1, c1, calls1)"
    by (metis prod_cases3)
  obtain rest calls2 where r: "fitness_keys objfunc pop calls1 = (rest, calls2)"
    by (metis surj_pair)
  have keyed: "keyed = (k1, c1) # rest" using Cons.prems(1) g r by simp
  show ?case
  proof (cases "(k, c) = (k1, c1)")
    case True
    then show ?thesis using fitness_getter_sets_flag [OF g] by simp
  next
    case False
    then have "(k, c) \<in> set rest" using Cons.prems(2) keyed by auto
    then show ?thesis using Cons.IH [OF r] by simp
  qed
qed

lemma fitness_keys_genotypes:
  "fitness_keys objfunc pop calls = (keyed, calls') \<Longrightarrow>
   map (\<lambda>z. u_genotype (snd z)) keyed = map u_genotype pop"
proof (induction pop arbitrary: calls keyed calls')
  case Nil
  then show ?case by simp
next
  case (Cons a pop)
  obtain k1 c1 calls1 where g: "fitness_getter objfunc a calls = (k1, c1, calls1)"
    by (metis prod_cases3)
  obtain rest calls2 where r: "fitness_keys objfunc pop calls1 = (rest, calls2)"
    by (metis surj_pair)
  have keyed: "keyed = (k1, c1) # rest" using Cons.prems(1) g r by simp
  show ?case using keyed fitness_getter_sets_flag [OF g] Cons.IH [OF r] by simp
qed

text \<open>
  Up to the return statement \<^verbatim>\<open>best_solution\<close> does what is asked of it: on a
  population that is not empty it picks, among the individuals with their fitness
  read, the first whose fitness is the greatest, and reports that fitness, negated
  when the objective is minimized.
\<close>

lemma best_choice_picks_first_greatest:
  assumes "population_es self = Some pop" and "pop \<noteq> []"
    and "fitness_keys objfunc pop calls = (keyed, calls')"
  shows "fst (best_choice objfunc opt self calls)
           = Inr (snd (hd (filter (\<lambda>z. fst z = Max (fst ` set keyed)) keyed)),
                  if opt = ''min'' then - fst (hd (filter (\<lambda>z. fst z = Max (fst ` set keyed)) keyed))
                  else fst (hd (filter (\<lambda>z. fst z = Max (fst ` set keyed)) keyed)))"
proof -
  let ?b = "hd (filter (\<lambda>z. fst z = Max (fst ` set keyed)) keyed)"
  have ne: "keyed \<noteq> []" using fitness_keys_length [OF assms(3)] assms(2) by auto
  then have sne: "sorted_reverse fst keyed \<noteq> []"
    by (metis sorted_reverse_def length_sort length_rev length_0_conv)
  have hd: "hd (sorted_reverse fst keyed) = ?b" by (rule sorted_reverse_hd [OF ne])
  obtain tl' where s: "sorted_reverse fst keyed = ?b # tl'"
    using sne hd by (cases "sorted_reverse fst keyed") auto
  have "set (sorted_reverse fst keyed) = set keyed" by (simp add: sorted_reverse_def)
  then have "?b \<in> set keyed" using s by (metis list.set_intros(1))
  then have c: "fitness_calculated (snd ?b) \<and> u_fitness (snd ?b) = fst ?b"
    using fitness_keys_cached [OF assms(3), of "fst ?b" "snd ?b"] by simp
  obtain k b where kb: "?b = (k, b)" by (cases ?b)
  have g: "fitness_getter objfunc b calls' = (k, b, calls')"
    using c kb by (simp add: fitness_getter_cached)
  show ?thesis
    using assms(1,3) s g unfolding kb by (simp add: best_choice_def Let_def)
qed

lemma best_solution_raises:
  assumes "population_es self = Some pop" and "pop \<noteq> []"
  shows "fst (best_solution objfunc opt self calls) = Inl (AttributeError ''vector'')"
proof -
  obtain keyed calls' where k: "fitness_keys objfunc pop calls = (keyed, calls')"
    by (metis surj_pair)
  from best_choice_picks_first_greatest [OF assms k, of opt]
  obtain b v where "fst (best_choice objfunc opt self calls) = Inr (b, v)" by blast
  then show ?thesis
    by (auto simp: best_solution_def Indiv_has_no_vector split: prod.splits sum.splits)
qed

text \<open>
  Claim C2. On a population that is not empty \<^verbatim>\<open>best_solution\<close> returns the
  genotype and the sign-corrected fitness of the earliest individual of greatest
  fitness. On the population of \<open>fresh\<close> (fitness 10) and \<open>candidate\<close> (fitness 5)
  with a minimized objective, the choice is \<open>fresh\<close> with reported fitness -10, but
  the return statement reads the attribute \<^verbatim>\<open>vector\<close>, which an \<^verbatim>\<open>Indiv\<close> does not
  have (its genotype is \<^verbatim>\<open>genotype\<close>), and the call ends in \<^verbatim>\<open>AttributeError\<close>.
\<close>

theorem best_solution_attribute_error:
  "fst (best_choice score ''min'' es_example []) = Inr (fitness_setter 10 fresh, - 10)
   \<and> fst (best_solution score ''min'' es_example []) = Inl (AttributeError ''vector'')
   \<and> Indiv_getattr (fitness_setter 10 fresh) ''genotype'' = Inr (PyArray [10])"
  by (simp add: best_solution_def best_choice_def es_example_def ES_init_def
      fitness_getter_def fitness_setter_def score_def fresh_def candidate_def
      sorted_reverse_def Indiv_getattr_def Let_def)

subsection \<open>ES: perturb\<close>

lemma perturb_step_as_shipped:
  "parent_list \<noteq> [] \<Longrightarrow>
   perturb_step Individual_globals ops self parent_list k = Inl (NameError ''np'')"
  by (simp add: perturb_step_def Indiv_init_def np_unbound Let_def)

lemma perturb_as_shipped:
  "parent_list \<noteq> [] \<Longrightarrow> 0 < size_es self \<Longrightarrow>
   perturb Individual_globals ops self parent_list = Inl (NameError ''np'')"
  by (simp add: perturb_def perturb_loop.simps [of _ _ _ _ "[]"] perturb_step_as_shipped)

lemma Indiv_init_numpy:
  "load_global g ''np'' = Inr (PyModule ''numpy'') \<Longrightarrow>
   Indiv_init g vector None =
     Inr \<lparr>u_genotype = vector, speed = zeros_like vector, u_fitness = 0,
          fitness_calculated = False, best = vector, is_dead = False\<rparr>"
  by (simp add: Indiv_init_def)

lemma perturb_step_numpy:
  assumes "load_global g ''np'' = Inr (PyModule ''numpy'')"
    and "population_es self = Some pop" and "parent_list \<noteq> []"
  shows "\<exists>v. perturb_step g ops self parent_list k =
           Inr \<lparr>u_genotype = check_bounds ops v, speed = zeros_like (check_bounds ops v),
                u_fitness = 0, fitness_calculated = False, best = check_bounds ops v,
                is_dead = False\<rparr>"
  using assms by (simp add: perturb_step_def Indiv_init_numpy Let_def) blast

lemma perturb_loop_length:
  assumes "load_global g ''np'' = Inr (PyModule ''numpy'')"
    and "population_es self = Some pop" and "parent_list \<noteq> []"
  shows "\<exists>result. perturb_loop g ops self parent_list offspring = Inr result
           \<and> int (length result) = max (int (length offspring)) (size_es self)
           \<and> take (length offspring) result = offspring
           \<and> (\<forall>c \<in> set (drop (length offspring) result).
                 \<exists>v. u_genotype c = check_bounds ops v \<and> \<not> fitness_calculated c)"
  using assms
proof (induction g ops self parent_list offspring rule: perturb_loop.induct)
  case (1 g ops self parent_list offspring)
  show ?case
  proof (cases "int (length offspring) < size_es self")
    case False
    then show ?thesis by (simp add: perturb_loop.simps [of g ops self parent_list offspring])
  next
    case True
    from perturb_step_numpy [OF "1.prems", of ops "length offspring"]
    obtain v where s: "perturb_step g ops self parent_list (length offspring) =
           Inr \<lparr>u_genotype = check_bounds ops v, speed = zeros_like (check_bounds ops v),
                u_fitness = 0, fitness_calculated = False, best = check_bounds ops v,
                is_dead = False\<rparr>" (is "_ = Inr ?new")
      by blast
    from "1.IH" [OF True s "1.prems"]
    obtain result where r: "perturb_loop g ops self parent_list (offspring @ [?new]) = Inr result"
      and l: "int (length result) = max (int (length (offspring @ [?new]))) (size_es self)"
      and t: "take (length (offspring @ [?new])) result = offspring @ [?new]"
      and d: "\<forall>c \<in> set (drop (length (offspring @ [?new])) result).
                 \<exists>v. u_genotype c = check_bounds ops v \<and> \<not> fitness_calculated c"
      by blast
    have eq: "perturb_loop g ops self parent_list offspring = Inr result"
      using True s r by (simp add: perturb_loop.simps [of g ops self parent_list offspring])
    have len: "int (length result) = max (int (length offspring)) (size_es self)"
      using l True by simp
    have res: "result = offspring @ ?new # drop (Suc (length offspring)) result"
      using t append_take_drop_id [of "Suc (length offspring)" result] by simp
    have tk: "take (length offspring) result = offspring"
      by (subst res) simp
    have dr: "drop (length offspring) result = ?new # drop (Suc (length offspring)) result"
      by (subst res) simp
    have new: "\<exists>v. u_genotype ?new = check_bounds ops v \<and> \<not> fitness_calculated ?new"
      by auto
    have all: "\<forall>c \<in> set (drop (length offspring) result).
                 \<exists>v. u_genotype c = check_bounds ops v \<and> \<not> fitness_calculated c"
      unfolding dr using new d by simp
    show ?thesis using eq len tk all by blast
  qed
qed

lemma perturb_returns_size:
  assumes "load_global g ''np'' = Inr (PyModule ''numpy'')"
    and "population_es self = Some pop" and "parent_list \<noteq> []"
  shows "\<exists>offspring. perturb g ops self parent_list = Inr offspring
           \<and> int (length offspring) = max 0 (size_es self)
           \<and> (\<forall>c \<in> set offspring.
                 \<exists>v. u_genotype c = check_bounds ops v \<and> \<not> fitness_calculated c)"
  using perturb_loop_length [OF assms, of ops "[]"] by (simp add: perturb_def)

text \<open>
  Claim C4. \<^verbatim>\<open>perturb\<close> on a list of parents that is not empty returns exactly
  \<^verbatim>\<open>n_offspring\<close> individuals, each with a repaired genotype. The strategy
  configured with \<^verbatim>\<open>popSize\<close> 2 and \<^verbatim>\<open>offspringSize\<close> 3 has \<^verbatim>\<open>n_offspring\<close> 3
  and \<^verbatim>\<open>size\<close> 2. With the modules as they are the call returns no offspring at
  all: the first \<^verbatim>\<open>Indiv(self.objfunc, new_solution)\<close> reads \<^verbatim>\<open>np\<close>, which
  src/Individual.py does not import, and ends in \<^verbatim>\<open>NameError\<close>. With numpy
  imported there, the loop runs while \<^verbatim>\<open>len(offspring) < self.size\<close> and returns
  2 offspring, not 3.
\<close>

theorem perturb_offspring_count:
  "n_offspring es_example = 3 \<and> size_es es_example = 2
   \<and> perturb Individual_globals example_operators es_example [fresh] = Inl (NameError ''np'')
   \<and> perturb Individual_globals_numpy example_operators es_example [fresh]
       = Inr [\<lparr>u_genotype = [20], speed = [0], u_fitness = 0, fitness_calculated = False,
               best = [20], is_dead = False\<rparr>,
              \<lparr>u_genotype = [22], speed = [0], u_fitness = 0, fitness_calculated = False,
               best = [22], is_dead = False\<rparr>]"
proof -
  have e: "es_example = \<lparr>size_es = 2, n_offspring = 3, population_es = Some [fresh, candidate]\<rparr>"
    by (simp add: es_example_def ES_init_def)
  have a: "perturb Individual_globals example_operators es_example [fresh] = Inl (NameError ''np'')"
    by (simp add: perturb_def perturb_loop.simps [of _ _ _ _ "[]"] perturb_step_as_shipped e)
  have np: "load_global Individual_globals_numpy ''np'' = Inr (PyModule ''numpy'')"
    by (simp add: load_global_def Individual_globals_numpy_def)
  have b: "perturb Individual_globals_numpy example_operators es_example [fresh]
       = Inr [\<lparr>u_genotype = [20], speed = [0], u_fitness = 0, fitness_calculated = False,
               best = [20], is_dead = False\<rparr>,
              \<lparr>u_genotype = [22], speed = [0], u_fitness = 0, fitness_calculated = False,
               best = [22], is_dead = False\<rparr>]"
    by (simp add: perturb_def perturb_loop.simps perturb_step_def Indiv_init_numpy [OF np] e
        example_operators_def clip_def fresh_def zeros_like_def Let_def)
  have n: "n_offspring es_example = 3 \<and> size_es es_example = 2"
    by (simp add: e)
  show ?thesis using a b n by blast
qed

end
